theory Spec2Isabelle
  imports Main "HOL-Library.Sublist" "HOL-Library.AList"
begin

section \<open>The host scene as the toolkit sees it\<close>

text \<open>
  jmLightToolkit.py is a panel of operations over the scene of the host application.
  Every operation is a sequence of host commands (\<^verbatim>\<open>pm.selected\<close>, \<^verbatim>\<open>pm.nodeType\<close>,
  \<^verbatim>\<open>pm.ls\<close>, \<^verbatim>\<open>pm.delete\<close>, \<^verbatim>\<open>pm.createDisplayLayer\<close>, ...). The embedding keeps
  the host state in one record: what the operations only read is a field holding the
  host's answer, what they change is a field that the model updates.

  Nodes are identified by their name. A plug is a node, an attribute name and, for an
  element of an array attribute, its index: \<^verbatim>\<open>lgtShape.aiFilters[2]\<close> is
  \<open>(''lgtShape'', ''aiFilters'', Some 2)\<close> and \<^verbatim>\<open>blocker.message\<close> is
  \<open>(''blocker'', ''message'', None)\<close>.
\<close>

type_synonym node = string
type_synonym plug = "node \<times> string \<times> nat option"

datatype error = IndexError | TypeError | AttributeError | RuntimeError | MayaNodeError

datatype level = DEBUG | INFO | WARNING | ERROR

datatype event = OpenChunk | CloseChunk | Command string "string list"

record layer =
  lname :: string
  lmembers :: "node list"
  lvisibility :: nat
  lcolor :: nat

record 'v world =
  nodes :: "node list"
  nodeType :: "node \<Rightarrow> string"
  is_dag :: "node \<Rightarrow> bool"
  getParent :: "node \<Rightarrow> node"
  getShape :: "node \<Rightarrow> node option"
  getChildren_ad :: "node \<Rightarrow> node list"
  getChildren_ad_s :: "node \<Rightarrow> node list"
  members_flat :: "node \<Rightarrow> node list"
  set_members :: "node \<Rightarrow> node list"
  selection :: "node list"
  layers :: "layer list"
  conns :: "(plug \<times> plug) list"
  attrs :: "node \<times> string \<Rightarrow> 'v option"
  density :: "node \<Rightarrow> 'v"
  useNearAtten :: "node \<Rightarrow> bool"
  useFarAtten :: "node \<Rightarrow> bool"
  lightlinks :: "(node \<times> node) list"
  promptDialog :: "string \<Rightarrow> string \<times> string"
  fresh_name :: "node list \<Rightarrow> string \<Rightarrow> node"
  mtoa_loaded :: bool
  hierarchy_checked :: bool
  multiAttr_text :: string
  multiAttr_value :: 'v
  soloLights_css_on :: bool
  muteLights_css_on :: bool
  journal :: "event list"
  log :: "(level \<times> string) list"

text \<open>
  \<^item> \<open>nodes\<close> lists the dependency-graph nodes of the scene in the order \<^verbatim>\<open>pm.ls\<close>
    gives them; \<open>nodeType\<close>, \<open>getParent\<close> (of a shape: its transform), \<open>getShape\<close>
    (\<open>None\<close> when a transform has no shape), \<open>getChildren_ad\<close>
    (\<^verbatim>\<open>getChildren(ad=True)\<close>), \<open>getChildren_ad_s\<close> (\<^verbatim>\<open>getChildren(ad=True, s=True)\<close>)
    and \<open>members_flat\<close> (\<^verbatim>\<open>members(True)\<close> of an objectSet) are the host's answers;
    \<open>is_dag\<close> tells whether the PyNode of a node has a \<^verbatim>\<open>getParent\<close> method at all.
  \<^item> \<open>layers\<close> are the display layers; \<open>conns\<close> the connections, each a pair of the
    destination plug and the source plug; \<open>attrs\<close> the numeric attributes that exist.
  \<^item> \<open>mtoa_loaded\<close>, \<open>hierarchy_checked\<close>, \<open>multiAttr_text\<close> and \<open>multiAttr_value\<close> are
    what the constructor and the widgets of the panel read.
  \<^item> \<open>journal\<close> records the undo-chunk commands and every host command that changes
    the scene, in the order they are issued; \<open>log\<close> records the calls of the logger
    with the message as written in the source (its format string).
\<close>

type_synonym ('v, 'a) result = "(error \<times> 'v world) + ('a \<times> 'v world)"


definition final :: "('v, 'a) result \<Rightarrow> 'v world" where
  "final r = (case r of Inl (e, w) \<Rightarrow> w | Inr (x, w) \<Rightarrow> w)"

definition raised :: "('v, 'a) result \<Rightarrow> error option" where
  "raised r = (case r of Inl (e, w) \<Rightarrow> Some e | Inr (x, w) \<Rightarrow> None)"

definition returned :: "('v, 'a) result \<Rightarrow> 'a option" where
  "returned r = (case r of Inl (e, w) \<Rightarrow> None | Inr (x, w) \<Rightarrow> Some x)"

definition logger :: "level \<Rightarrow> string \<Rightarrow> 'v world \<Rightarrow> 'v world" where
  "logger lv msg w = w\<lparr>log := log w @ [(lv, msg)]\<rparr>"

definition command :: "string \<Rightarrow> string list \<Rightarrow> 'v world \<Rightarrow> 'v world" where
  "command name args w = w\<lparr>journal := journal w @ [Command name args]\<rparr>"

subsection \<open>The constants of the constructor\<close>

definition displayed_layer_name :: string where
  "displayed_layer_name = ''displayedLights''"

definition muted_layer_name :: string where
  "muted_layer_name = ''mutedLights''"

definition lgt_types_default :: "string list" where
  "lgt_types_default =
     [''pointLight'', ''spotLight'', ''areaLight'', ''directionalLight'', ''volumeLight'']"

definition lgt_types_arnold :: "string list" where
  "lgt_types_arnold =
     [''aiAreaLight'', ''aiMeshLight'', ''aiPhotometricLight'', ''aiSkyDomeLight'']"

definition lgt_types :: "'v world \<Rightarrow> string list" where
  "lgt_types w = lgt_types_default @ (if mtoa_loaded w then lgt_types_arnold else [])"

subsection \<open>The undo chunk and the selection wrappers\<close>

text \<open>
  \<^verbatim>\<open>
  def _wrapperUndoChunck(function):
      def wrapper(self, *args, **kwargs):
          try:
              pm.undoInfo(openChunk=True)
              function(self, *args, **kwargs)
          finally:
              pm.undoInfo(closeChunk=True)
      return wrapper
  \<close>
  The wrapper calls the function and drops what it returns: the wrapped operation
  returns \<^verbatim>\<open>None\<close>. An exception of the function passes through the \<^verbatim>\<open>finally\<close>.
\<close>

definition undoInfo_openChunk :: "'v world \<Rightarrow> 'v world" where
  "undoInfo_openChunk w = w\<lparr>journal := journal w @ [OpenChunk]\<rparr>"

definition undoInfo_closeChunk :: "'v world \<Rightarrow> 'v world" where
  "undoInfo_closeChunk w = w\<lparr>journal := journal w @ [CloseChunk]\<rparr>"

definition wrapperUndoChunck ::
  "('v world \<Rightarrow> ('v, 'a) result) \<Rightarrow> 'v world \<Rightarrow> ('v, 'a option) result" where
  "wrapperUndoChunck function w =
     (case function (undoInfo_openChunk w) of
        Inl (e, w') \<Rightarrow> Inl (e, undoInfo_closeChunk w')
      | Inr (x, w') \<Rightarrow> Inr (None, undoInfo_closeChunk w'))"

definition select :: "node list \<Rightarrow> 'v world \<Rightarrow> 'v world" where
  "select xs w = w\<lparr>selection := xs\<rparr>"


definition wrapperSelected ::
  "('v world \<Rightarrow> ('v, 'a) result) \<Rightarrow> 'v world \<Rightarrow> ('v, 'a option) result" where
  "wrapperSelected function w =
     (let selected = selection w in
      case function w of
        Inl (e, w') \<Rightarrow> Inl (e, select selected w')
      | Inr (x, w') \<Rightarrow> Inr (None, select selected w'))"

text \<open>The depth of open undo chunks after a journal, starting from depth \<open>d\<close>.\<close>

fun chunk_depth :: "int \<Rightarrow> event list \<Rightarrow> int" where
  "chunk_depth d [] = d"
| "chunk_depth d (OpenChunk # es) = chunk_depth (d + 1) es"
| "chunk_depth d (CloseChunk # es) = chunk_depth (d - 1) es"
| "chunk_depth d (Command c a # es) = chunk_depth d es"

subsection \<open>The selection classifier\<close>

text \<open>
  \<^verbatim>\<open>
  def _onlyLightsFromSelection(self, get_shapes=False, all_hierachy=False):
      selection = []
      if all_hierachy:
          for node in pm.selected():
              children = [nde for nde in node.getChildren(ad=True)
                          if pm.nodeType(nde.name()) != "transform"]
              selection.extend(children)
      else:
          selection.extend(pm.selected())
      lights = []
      for node in selection:
          if pm.nodeType(node.name()) == "transform":
              node = node.getShape()
              if node is None:
                  continue
          if pm.nodeType(node.name()) in self.lgt_types:
              lights.append(node)
      if not lights:
          logger.warning("No lights selected")
          return None
      if not get_shapes:
          lights = [shape.getParent() for shape in lights]
      logger.debug("_onlyLightsFromSelection : %s" % lights)
      return lights
  \<close>
\<close>

definition hierarchy_selection :: "'v world \<Rightarrow> node list" where
  "hierarchy_selection w =
     concat (map (\<lambda>node. filter (\<lambda>nde. nodeType w nde \<noteq> ''transform'') (getChildren_ad w node))
                 (selection w))"

definition light_shape :: "'v world \<Rightarrow> node \<Rightarrow> node option" where
  "light_shape w node =
     (if nodeType w node = ''transform'' then
        (case getShape w node of
           None \<Rightarrow> None
         | Some shape \<Rightarrow> if nodeType w shape \<in> set (lgt_types w) then Some shape else None)
      else if nodeType w node \<in> set (lgt_types w) then Some node else None)"

definition onlyLightsFromSelection ::
  "bool \<Rightarrow> bool \<Rightarrow> 'v world \<Rightarrow> node list option \<times> 'v world" where
  "onlyLightsFromSelection get_shapes all_hierachy w =
     (let selection = (if all_hierachy then hierarchy_selection w else selection w);
          lights = List.map_filter (light_shape w) selection
      in if lights = [] then (None, logger WARNING ''No lights selected'' w)
         else (Some (if \<not> get_shapes then map (getParent w) lights else lights),
               logger DEBUG ''_onlyLightsFromSelection : %s'' w))"



subsection \<open>All the lights of the scene\<close>

text \<open>
  \<^verbatim>\<open>
  def _getAllLights(self, get_shapes=False):
      lights = []
      for lgt_type in self.lgt_types:
          lights.extend(pm.ls(type=lgt_type))
      if not lights:
          logger.warning("No lights in scene")
          return None
      if not get_shapes:
          lights = [shape.getParent() for shape in lights]
      logger.debug("_getAllLights : %s" % lights)
      return lights
  \<close>
\<close>

definition ls :: "'v world \<Rightarrow> string \<Rightarrow> node list" where
  "ls w ty = filter (\<lambda>n. nodeType w n = ty) (nodes w)"

definition getAllLights :: "bool \<Rightarrow> 'v world \<Rightarrow> node list option \<times> 'v world" where
  "getAllLights get_shapes w =
     (let lights = concat (map (ls w) (lgt_types w))
      in if lights = [] then (None, logger WARNING ''No lights in scene'' w)
         else (Some (if \<not> get_shapes then map (getParent w) lights else lights),
               logger DEBUG ''_getAllLights : %s'' w))"

subsection \<open>Display layers: solo, mute, restore\<close>

text \<open>
  \<open>objExists\<close> looks a name up among the nodes and the display layers.
  \<open>delete\<close> removes the display layers of the name and, when the name is a node,
  the node with its descendants, their connections and their selection entries.
  \<open>createDisplayLayer\<close> adds a layer of the requested name holding the current selection
  (which is why the source clears the selection first) and returns its position as the
  handle of the new layer; the model does not rename on a clash, so that two layers of
  one name are a state the model can express. \<open>layer_addMembers\<close> appends to the
  members of the layer and takes nothing away from other layers.
\<close>

definition objExists :: "'v world \<Rightarrow> string \<Rightarrow> bool" where
  "objExists w n = (n \<in> set (nodes w) \<or> n \<in> set (map lname (layers w)))"

definition delete :: "node \<Rightarrow> 'v world \<Rightarrow> 'v world" where
  "delete n w =
     (let gone = (if n \<in> set (nodes w) then n # getChildren_ad w n else [])
      in command ''delete'' [n]
           (w\<lparr>nodes := filter (\<lambda>x. x \<notin> set gone) (nodes w),
              layers := filter (\<lambda>l. lname l \<noteq> n) (layers w),
              conns := filter (\<lambda>c. fst (fst c) \<notin> set gone \<and> fst (snd c) \<notin> set gone) (conns w),
              selection := filter (\<lambda>x. x \<notin> set gone) (selection w)\<rparr>))"

definition createDisplayLayer :: "string \<Rightarrow> 'v world \<Rightarrow> nat \<times> 'v world" where
  "createDisplayLayer n w =
     (length (layers w),
      command ''createDisplayLayer'' [n]
        (w\<lparr>layers := layers w @
              [\<lparr>lname = n, lmembers = selection w, lvisibility = 1, lcolor = 0\<rparr>]\<rparr>))"

definition layer_addMembers :: "nat \<Rightarrow> node list \<Rightarrow> 'v world \<Rightarrow> 'v world" where
  "layer_addMembers i xs w =
     command ''addMembers'' xs
       (w\<lparr>layers := (layers w)[i := (layers w ! i)\<lparr>lmembers := lmembers (layers w ! i) @ xs\<rparr>]\<rparr>)"

definition layer_color_set :: "nat \<Rightarrow> nat \<Rightarrow> 'v world \<Rightarrow> 'v world" where
  "layer_color_set i c w =
     command ''color.set'' [] (w\<lparr>layers := (layers w)[i := (layers w ! i)\<lparr>lcolor := c\<rparr>]\<rparr>)"

definition layer_visibility_set :: "nat \<Rightarrow> nat \<Rightarrow> 'v world \<Rightarrow> 'v world" where
  "layer_visibility_set i v w =
     command ''visibility.set'' []
       (w\<lparr>layers := (layers w)[i := (layers w ! i)\<lparr>lvisibility := v\<rparr>]\<rparr>)"

fun find_layer :: "layer list \<Rightarrow> string \<Rightarrow> nat option" where
  "find_layer [] n = None"
| "find_layer (l # rest) n =
     (if lname l = n then Some 0 else map_option Suc (find_layer rest n))"

text \<open>
  \<^verbatim>\<open>
  def __soloMuteLightsCSS(self):
      if pm.objExists(self.displayed_layer_name):
          self.pushButton_soloLights.setStyleSheet(self.css_btn_on)
      else:
          self.pushButton_soloLights.setStyleSheet(self.css_btn_default)
      if pm.objExists(self.muted_layer_name):
          self.pushButton_muteLights.setStyleSheet(self.css_btn_on)
      else:
          self.pushButton_muteLights.setStyleSheet(self.css_btn_default)
  \<close>
\<close>

definition soloMuteLightsCSS :: "'v world \<Rightarrow> 'v world" where
  "soloMuteLightsCSS w =
     w\<lparr>soloLights_css_on := objExists w displayed_layer_name,
       muteLights_css_on := objExists w muted_layer_name\<rparr>"

text \<open>
  \<^verbatim>\<open>
  @_wrapperUndoChunck
  def restoreLights(self):
      something_deleted = False
      if pm.objExists(self.displayed_layer_name):
          pm.delete(self.displayed_layer_name)
          something_deleted = True
      if pm.objExists(self.muted_layer_name):
          pm.delete(self.muted_layer_name)
          something_deleted = True
      if something_deleted:
          self.__soloMuteLightsCSS()
          logger.info("Lights visibilities restored.")
          return True
      else:
          return False
  \<close>
\<close>

definition restoreLights_body :: "'v world \<Rightarrow> ('v, bool) result" where
  "restoreLights_body w =
     (let (something_deleted1, w1) =
            (if objExists w displayed_layer_name then (True, delete displayed_layer_name w)
             else (False, w));
          (something_deleted2, w2) =
            (if objExists w1 muted_layer_name then (True, delete muted_layer_name w1)
             else (something_deleted1, w1))
      in if something_deleted2
         then Inr (True, logger INFO ''Lights visibilities restored.'' (soloMuteLightsCSS w2))
         else Inr (False, w2))"

definition restoreLights :: "'v world \<Rightarrow> ('v, bool option) result" where
  "restoreLights = wrapperUndoChunck restoreLights_body"

text \<open>
  \<^verbatim>\<open>
  @_wrapperUndoChunck
  @_wrapperSelected
  def soloLights(self):
      self.restoreLights()
      is_hierarchy = self.pushButton_soloLights_hierarchy.isChecked()
      lights = { "displayed" : self._onlyLightsFromSelection(all_hierachy=is_hierarchy),
                 "muted" : [] }
      if not lights["displayed"]:
          return None
      all_lights = self._getAllLights()
      lights["muted"] = list(set(all_lights).difference(lights["displayed"]))
      pm.select(clear=True)
      muted_layer = pm.createDisplayLayer(n=self.muted_layer_name)
      muted_layer.addMembers(lights["muted"])
      muted_layer.color.set(21)
      muted_layer.visibility.set(0)
      displayed_layer = pm.createDisplayLayer(n=self.displayed_layer_name)
      displayed_layer.addMembers(lights["displayed"])
      displayed_layer.color.set(22)
      self.__soloMuteLightsCSS()
      logger.info("Lights displayed : %s" % [lgt.name() for lgt in lights["displayed"]])
      return lights["displayed"]
  \<close>
  \<^verbatim>\<open>set(None)\<close> is a TypeError. The order in which Python lists a set is not
  modelled: the muted lights are listed in the order of \<open>all_lights\<close>.
\<close>

definition soloLights_body :: "'v world \<Rightarrow> ('v, node list option) result" where
  "soloLights_body w =
     (case restoreLights w of
        Inl (e, w1) \<Rightarrow> Inl (e, w1)
      | Inr (r, w1) \<Rightarrow>
          (let is_hierarchy = hierarchy_checked w1;
               (displayed, w2) = onlyLightsFromSelection False is_hierarchy w1
           in if displayed = None \<or> displayed = Some [] then Inr (None, w2)
              else
                (let (all_lights, w3) = getAllLights False w2
                 in case all_lights of
                      None \<Rightarrow> Inl (TypeError, w3)
                    | Some all_lights \<Rightarrow>
                        (let muted = remdups (filter (\<lambda>x. x \<notin> set (the displayed)) all_lights);
                             w4 = select [] w3;
                             (muted_layer, w5) = createDisplayLayer muted_layer_name w4;
                             w6 = layer_addMembers muted_layer muted w5;
                             w7 = layer_color_set muted_layer 21 w6;
                             w8 = layer_visibility_set muted_layer 0 w7;
                             (displayed_layer, w9) = createDisplayLayer displayed_layer_name w8;
                             w10 = layer_addMembers displayed_layer (the displayed) w9;
                             w11 = layer_color_set displayed_layer 22 w10;
                             w12 = soloMuteLightsCSS w11
                         in Inr (displayed, logger INFO ''Lights displayed : %s'' w12)))))"

definition soloLights :: "'v world \<Rightarrow> ('v, node list option option option) result" where
  "soloLights = wrapperUndoChunck (wrapperSelected soloLights_body)"

text \<open>
  \<^verbatim>\<open>
  @_wrapperUndoChunck
  @_wrapperSelected
  def muteLights(self):
      is_hierarchy = self.pushButton_soloLights_hierarchy.isChecked()
      lights = self._onlyLightsFromSelection(all_hierachy=is_hierarchy)
      if not lights:
          return None
      if pm.objExists(self.muted_layer_name):
          pm.PyNode(self.muted_layer_name).addMembers(lights)
      else:
          pm.select(clear=True)
          muted_layer = pm.createDisplayLayer(n=self.muted_layer_name)
          muted_layer.addMembers(lights)
          muted_layer.color.set(21)
          muted_layer.visibility.set(0)
      self.__soloMuteLightsCSS()
      logger.info("Lights muted : %s" % [lgt.name() for lgt in lights])
      return lights
  \<close>
  When the name exists and is not a display layer, the PyNode has no \<^verbatim>\<open>addMembers\<close>
  for display layers: AttributeError.
\<close>

definition muteLights_body :: "'v world \<Rightarrow> ('v, node list option) result" where
  "muteLights_body w =
     (let is_hierarchy = hierarchy_checked w;
          (lights, w1) = onlyLightsFromSelection False is_hierarchy w
      in if lights = None \<or> lights = Some [] then Inr (None, w1)
         else if objExists w1 muted_layer_name then
           (case find_layer (layers w1) muted_layer_name of
              None \<Rightarrow> Inl (AttributeError, w1)
            | Some i \<Rightarrow>
                Inr (lights, logger INFO ''Lights muted : %s''
                       (soloMuteLightsCSS (layer_addMembers i (the lights) w1))))
         else
           (let w2 = select [] w1;
                (muted_layer, w3) = createDisplayLayer muted_layer_name w2;
                w4 = layer_addMembers muted_layer (the lights) w3;
                w5 = layer_color_set muted_layer 21 w4;
                w6 = layer_visibility_set muted_layer 0 w5
            in Inr (lights, logger INFO ''Lights muted : %s'' (soloMuteLightsCSS w6))))"

definition muteLights :: "'v world \<Rightarrow> ('v, node list option option option) result" where
  "muteLights = wrapperUndoChunck (wrapperSelected muteLights_body)"

subsection \<open>Sets and light links\<close>

text \<open>
  \<^verbatim>\<open>
  @_wrapperUndoChunck
  def createSet(self):
      include_type = ["mesh", "aiStandIn", "pgYetiMaya"]
      selected = pm.selected()
      pre_setname = selected[-1].name().split("_")[0]
      shapes = []
      for node in selected:
          shapes.extend([node for node in node.getChildren(ad=True, s=True)
                         if pm.nodeType(node.name()) in include_type])
      transforms = [shape.getParent() for shape in shapes]
      if not transforms:
          logger.warning("Invalid selection")
          return None
      result = pm.promptDialog(title='Create Set', message='Name:', button=['OK', 'Cancel'],
          defaultButton='OK', cancelButton='Cancel', dismissString='Cancel', text=pre_setname)
      if result == 'OK':
          input_ = pm.promptDialog(query=True, text=True)
      else:
          logger.warning("Set need a name")
          return None
      if pm.objExists("root_SETS"):
          root_set = pm.PyNode("root_SETS")
      else:
          pm.select(cl=True)
          root_set = pm.sets(n="root_SETS")
      if re.search(r'[A-Za-z0-9_]+(_SETS)', input_) is None:
          input_ = "%s_SET" % input_
      pm.select(cl=True)
      set_ = pm.sets(n=input_)
      set_.addMembers(transforms)
      pm.sets(root_set, fe=set_)
      pm.select(selected)
      logger.info("%s" % set_)
      return set_
  \<close>
  \<^verbatim>\<open>selected[-1]\<close> of an empty list is an IndexError. \<open>promptDialog w text\<close> is what the
  user answers to the dialog opened with that text: the button and the text typed.
  \<^verbatim>\<open>pm.sets(n=name)\<close> with nothing selected makes an empty objectSet of that name.
\<close>

definition include_type :: "string list" where
  "include_type = [''mesh'', ''aiStandIn'', ''pgYetiMaya'']"

definition word_char :: "char \<Rightarrow> bool" where
  "word_char c =
     (c \<in> set ''ABCDEFGHIJKLMNOPQRSTUVWXYZabcdefghijklmnopqrstuvwxyz0123456789_'')"

fun search_SETS :: "string \<Rightarrow> bool" where
  "search_SETS [] = False"
| "search_SETS (c # cs) = ((word_char c \<and> prefix ''_SETS'' cs) \<or> search_SETS cs)"

definition sets_create :: "string \<Rightarrow> 'v world \<Rightarrow> 'v world" where
  "sets_create n w =
     command ''sets'' [n]
       (w\<lparr>nodes := nodes w @ [n],
          nodeType := (nodeType w)(n := ''objectSet''),
          set_members := (set_members w)(n := [])\<rparr>)"

definition sets_addMembers :: "node \<Rightarrow> node list \<Rightarrow> 'v world \<Rightarrow> 'v world" where
  "sets_addMembers n xs w =
     command ''sets.addMembers'' (n # xs)
       (w\<lparr>set_members := (set_members w)(n := set_members w n @ xs)\<rparr>)"

definition createSet_body :: "'v world \<Rightarrow> ('v, node option) result" where
  "createSet_body w =
     (let selected = selection w in
      if selected = [] then Inl (IndexError, w)
      else
        (let pre_setname = takeWhile (\<lambda>c. c \<noteq> CHR ''_'') (last selected);
             shapes = concat (map (\<lambda>node. filter (\<lambda>n. nodeType w n \<in> set include_type)
                                                   (getChildren_ad_s w node)) selected);
             transforms = map (getParent w) shapes
         in if transforms = [] then Inr (None, logger WARNING ''Invalid selection'' w)
            else
              (let (result, input) = promptDialog w pre_setname
               in if result \<noteq> ''OK'' then Inr (None, logger WARNING ''Set need a name'' w)
                  else
                    (let w1 = (if objExists w ''root_SETS'' then w
                               else sets_create ''root_SETS'' (select [] w));
                         input' = (if \<not> search_SETS input then input @ ''_SET'' else input);
                         w2 = sets_create input' (select [] w1);
                         w3 = sets_addMembers input' transforms w2;
                         w4 = sets_addMembers ''root_SETS'' [input'] w3;
                         w5 = select selected w4
                     in Inr (Some input', logger INFO ''%s'' w5)))))"

definition createSet :: "'v world \<Rightarrow> ('v, node option option) result" where
  "createSet = wrapperUndoChunck createSet_body"

text \<open>
  \<^verbatim>\<open>
  def breakAllLinks(self):
      lights = self._onlyLightsFromSelection()
      for light in lights:
          object_linked = pm.lightlink(q=True, light=light)
          pm.lightlink(light=light, object=object_linked, b=True)
      logger.info("%s breaked from all" % [node.name() for node in lights])
      return light
  \<close>
  Iterating over \<^verbatim>\<open>None\<close> is a TypeError. The links are pairs of a light and an object.
\<close>

definition lightlink_query :: "'v world \<Rightarrow> node \<Rightarrow> node list" where
  "lightlink_query w light = map snd (filter (\<lambda>p. fst p = light) (lightlinks w))"

definition lightlink_break :: "node \<Rightarrow> node list \<Rightarrow> 'v world \<Rightarrow> 'v world" where
  "lightlink_break light objs w =
     command ''lightlink'' (light # objs)
       (w\<lparr>lightlinks := filter (\<lambda>p. \<not> (fst p = light \<and> snd p \<in> set objs)) (lightlinks w)\<rparr>)"

definition breakAllLinks :: "'v world \<Rightarrow> ('v, node) result" where
  "breakAllLinks w =
     (let (lights, w1) = onlyLightsFromSelection False False w
      in case lights of
           None \<Rightarrow> Inl (TypeError, w1)
         | Some lights \<Rightarrow>
             (let w2 = foldl (\<lambda>w light. lightlink_break light (lightlink_query w light) w) w1 lights
              in Inr (last lights, logger INFO ''%s breaked from all'' w2)))"







subsection \<open>The attribute batch editor\<close>








subsection \<open>Connections\<close>







definition outputs :: "'v world \<Rightarrow> node \<Rightarrow> node list" where
  "outputs w n = map (\<lambda>c. fst (fst c)) (filter (\<lambda>c. fst (snd c) = n) (conns w))"


subsection \<open>Filter housekeeping\<close>

text \<open>
  \<^verbatim>\<open>
  def getUnusedLightFilters(self, ai_filter):
      if ai_filter not in ["aiLightDecay", "aiLightBlocker"]:
          logger.error("'aiLightDecay' or 'aiLightBlocker'")
          return None
      all_lightfilters = pm.ls(type=ai_filter)
      if not all_lightfilters:
          logger.warning("No %s found" % ai_filter)
          return None
      disconnected_filters = []
      connected_filters = []
      for lightfilter in all_lightfilters:
          if not lightfilter.outputs():
              disconnected_filters.append(lightfilter)
          else:
              connected_filters.append(lightfilter)
      null_filters = []
      if ai_filter == "aiLightBlocker":
          for blocker in connected_filters:
              if not blocker.density.get():
                  null_filters.append(blocker)
      if ai_filter == "aiLightDecay":
          for decay in connected_filters:
              if not decay.useNearAtten.get() and not decay.useFarAtten.get():
                  null_filters.append(decay)
      if not disconnected_filters and not null_filters:
          logger.info("All filters is used.")
          return None
      else:
          return {"disconnected" : disconnected_filters, "null" : null_filters,
                  "type" : ai_filter}
  \<close>
\<close>

record unused_filters =
  uf_disconnected :: "node list"
  uf_null :: "node list"
  uf_type :: string

definition getUnusedLightFilters ::
  "string \<Rightarrow> ('v::zero) world \<Rightarrow> unused_filters option \<times> 'v world" where
  "getUnusedLightFilters ai_filter w =
     (if ai_filter \<notin> set [''aiLightDecay'', ''aiLightBlocker'']
      then (None, logger ERROR ''aiLightDecay or aiLightBlocker'' w)
      else
        (let all_lightfilters = ls w ai_filter
         in if all_lightfilters = [] then (None, logger WARNING ''No %s found'' w)
            else
              (let disconnected_filters = filter (\<lambda>f. outputs w f = []) all_lightfilters;
                   connected_filters = filter (\<lambda>f. outputs w f \<noteq> []) all_lightfilters;
                   null_blockers =
                     (if ai_filter = ''aiLightBlocker''
                      then filter (\<lambda>blocker. density w blocker = 0) connected_filters else []);
                   null_filters = null_blockers @
                     (if ai_filter = ''aiLightDecay''
                      then filter (\<lambda>decay. \<not> useNearAtten w decay \<and> \<not> useFarAtten w decay)
                             connected_filters
                      else [])
               in if disconnected_filters = [] \<and> null_filters = []
                  then (None, logger INFO ''All filters is used.'' w)
                  else (Some \<lparr>uf_disconnected = disconnected_filters, uf_null = null_filters,
                               uf_type = ai_filter\<rparr>, w))))"









subsection \<open>Linking a light filter to lights\<close>









section \<open>Concrete scenes\<close>

text \<open>
  \<open>empty_scene\<close> has no node and nothing selected. \<open>studio\<close> has three lights (a point
  light \<open>key\<close>, a spot light \<open>fill\<close>, an Arnold area light \<open>rim\<close>), each a
  transform with its shape, a blocker \<open>blk\<close> of density 0 and a decay \<open>dec\<close> with both
  attenuations on, connected to the lights, a blocker \<open>spare\<close> connected to nothing,
  and two object sets.
\<close>

definition empty_scene :: "int world" where
  "empty_scene =
     \<lparr>nodes = [], nodeType = (\<lambda>n. []), is_dag = (\<lambda>n. False), getParent = (\<lambda>n. n),
      getShape = (\<lambda>n. None), getChildren_ad = (\<lambda>n. []), getChildren_ad_s = (\<lambda>n. []),
      members_flat = (\<lambda>n. []), set_members = (\<lambda>n. []), selection = [], layers = [],
      conns = [], attrs = (\<lambda>p. None), density = (\<lambda>n. 1), useNearAtten = (\<lambda>n. True),
      useFarAtten = (\<lambda>n. True), lightlinks = [], promptDialog = (\<lambda>t. (''OK'', t)),
      fresh_name = (\<lambda>ns ty. ty @ ''1''), mtoa_loaded = True, hierarchy_checked = False,
      multiAttr_text = ''intensity'', multiAttr_value = 3, soloLights_css_on = False,
      muteLights_css_on = False, journal = [], log = []\<rparr>"

definition studio_transforms :: "node list" where
  "studio_transforms = [''key'', ''fill'', ''rim'', ''blk'', ''spare'']"

definition studio_shapes :: "node list" where
  "studio_shapes = [''keyShape'', ''fillShape'', ''rimShape'', ''blkShape'', ''spareShape'']"

definition studio_nodeType :: "node \<Rightarrow> string" where
  "studio_nodeType n =
     (if n \<in> set studio_transforms then ''transform''
      else if n = ''keyShape'' then ''pointLight''
      else if n = ''fillShape'' then ''spotLight''
      else if n = ''rimShape'' then ''aiAreaLight''
      else if n = ''blkShape'' \<or> n = ''spareShape'' then ''aiLightBlocker''
      else if n = ''dec'' then ''aiLightDecay''
      else if n = ''props_SET'' \<or> n = ''chars_SET'' then ''objectSet''
      else [])"

definition studio_is_dag :: "node \<Rightarrow> bool" where
  "studio_is_dag n = (n \<in> set studio_transforms \<or> n \<in> set studio_shapes)"

definition studio_getShape :: "node \<Rightarrow> node option" where
  "studio_getShape n = (if n \<in> set studio_transforms then Some (n @ ''Shape'') else None)"

definition studio_getParent :: "node \<Rightarrow> node" where
  "studio_getParent n = (if n \<in> set studio_shapes then take (length n - 5) n else n)"

definition studio_getChildren_ad :: "node \<Rightarrow> node list" where
  "studio_getChildren_ad n = (if n \<in> set studio_transforms then [n @ ''Shape''] else [])"

definition studio_members_flat :: "node \<Rightarrow> node list" where
  "studio_members_flat n =
     (if n = ''props_SET'' then [''table'', ''chair'']
      else if n = ''chars_SET'' then [''hero''] else [])"

definition studio_attrs :: "node \<times> string \<Rightarrow> int option" where
  "studio_attrs p =
     (if p = (''keyShape'', ''intensity'') then Some 2
      else if p = (''fillShape'', ''intensity'') then Some 4
      else if p = (''key'', ''translateX'') then Some 5
      else None)"

definition studio_density :: "node \<Rightarrow> int" where
  "studio_density n = (if n = ''blkShape'' then 0 else 1)"

definition studio :: "int world" where
  "studio = empty_scene
     \<lparr>nodes := [''key'', ''keyShape'', ''fill'', ''fillShape'', ''rim'', ''rimShape'',
                ''blk'', ''blkShape'', ''spare'', ''spareShape'', ''dec'',
                ''props_SET'', ''chars_SET''],
      nodeType := studio_nodeType,
      is_dag := studio_is_dag,
      getParent := studio_getParent,
      getShape := studio_getShape,
      getChildren_ad := studio_getChildren_ad,
      members_flat := studio_members_flat,
      conns := [((''keyShape'', ''aiFilters'', Some 0), (''blkShape'', ''message'', None)),
                ((''keyShape'', ''aiFilters'', Some 1), (''dec'', ''message'', None)),
                ((''fillShape'', ''aiFilters'', Some 0), (''dec'', ''message'', None))],
      attrs := studio_attrs,
      density := studio_density\<rparr>"

text \<open>
  The two classes of unused filters in the words of the specification: a filter is
  disconnected when it has no output connection, and functionally null when it is
  connected and inert (a blocker of density zero, a decay with both attenuations off).
\<close>

definition has_no_output :: "'v world \<Rightarrow> node \<Rightarrow> bool" where
  "has_no_output w f = (outputs w f = [])"

definition functionally_null :: "string \<Rightarrow> ('v::zero) world \<Rightarrow> node \<Rightarrow> bool" where
  "functionally_null ai_filter w f =
     (\<not> has_no_output w f \<and>
      ((ai_filter = ''aiLightBlocker'' \<and> density w f = 0) \<or>
       (ai_filter = ''aiLightDecay'' \<and> \<not> useNearAtten w f \<and> \<not> useFarAtten w f)))"

subsection \<open>Sequences of solo, mute and restore\<close>

text \<open>
  A session of the panel as far as the display layers go: the user selects nodes, toggles
  the hierarchy button and presses the three buttons, in any order. An operation that
  raises leaves the scene as it is at that point.
\<close>

datatype action = SoloLights | MuteLights | RestoreLights | Select "node list" | Hierarchy bool

definition perform :: "'v world \<Rightarrow> action \<Rightarrow> 'v world" where
  "perform w a =
     (case a of
        SoloLights \<Rightarrow> final (soloLights w)
      | MuteLights \<Rightarrow> final (muteLights w)
      | RestoreLights \<Rightarrow> final (restoreLights w)
      | Select xs \<Rightarrow> select xs w
      | Hierarchy b \<Rightarrow> w\<lparr>hierarchy_checked := b\<rparr>)"

definition layers_named :: "'v world \<Rightarrow> string \<Rightarrow> layer list" where
  "layers_named w n = filter (\<lambda>l. lname l = n) (layers w)"

definition one_layer_each :: "'v world \<Rightarrow> bool" where
  "one_layer_each w =
     (length (layers_named w displayed_layer_name) \<le> 1 \<and>
      length (layers_named w muted_layer_name) \<le> 1)"













section \<open>Properties\<close>

subsection \<open>The undo chunk wrapper\<close>

lemma chunk_depth_append: "chunk_depth d (es @ fs) = chunk_depth (chunk_depth d es) fs"
  by (induction d es rule: chunk_depth.induct) simp_all

lemma chunk_depth_shift: "chunk_depth d es = d + chunk_depth 0 es"
proof (induction es arbitrary: d)
  case Nil
  show ?case by simp
next
  case (Cons e es)
  show ?case
    using Cons [of "d + 1"] Cons [of "d - 1"] Cons [of d] Cons [of 1] Cons [of "- 1"] Cons [of 0]
    by (cases e) simp_all
qed

text \<open>
  Claim C8. For every operation wrapped by \<^verbatim>\<open>_wrapperUndoChunck\<close>: the chunk is opened
  before the operation runs and closed after it, whether the operation returns or
  raises. When the operation, run on the scene with the chunk open, adds the events
  \<open>es\<close> to the journal, the wrapped operation adds \<open>OpenChunk\<close>, then \<open>es\<close>, then
  \<open>CloseChunk\<close>; it raises exactly what the operation raises; and the depth of open
  chunks after it is what \<open>es\<close> alone would leave, so the open is matched by the close.
\<close>

theorem wrapperUndoChunck_brackets:
  assumes "journal (final (operation (undoInfo_openChunk w))) =
           journal (undoInfo_openChunk w) @ es"
  shows "journal (final (wrapperUndoChunck operation w)) =
           journal w @ [OpenChunk] @ es @ [CloseChunk]
       \<and> raised (wrapperUndoChunck operation w) = raised (operation (undoInfo_openChunk w))
       \<and> chunk_depth d (journal (final (wrapperUndoChunck operation w))) =
           chunk_depth d (journal w @ es)"
proof -
  have j: "journal (final (wrapperUndoChunck operation w)) =
           journal (final (operation (undoInfo_openChunk w))) @ [CloseChunk]"
    by (simp add: wrapperUndoChunck_def final_def undoInfo_closeChunk_def
             split: sum.splits prod.splits)
  have r: "raised (wrapperUndoChunck operation w) = raised (operation (undoInfo_openChunk w))"
    by (simp add: wrapperUndoChunck_def raised_def split: sum.splits prod.splits)
  have eq: "journal (final (wrapperUndoChunck operation w)) =
            journal w @ [OpenChunk] @ es @ [CloseChunk]"
    using j assms by (simp add: undoInfo_openChunk_def)
  have d: "chunk_depth d (journal w @ [OpenChunk] @ es @ [CloseChunk]) =
           chunk_depth d (journal w @ es)"
    by (simp add: chunk_depth_append chunk_depth_shift [of "chunk_depth d (journal w) + 1" es]
             chunk_depth_shift [of "chunk_depth d (journal w)" es])
  show ?thesis using eq r d by simp
qed

text \<open>
  Two runs: \<open>restoreLights\<close> on a scene that has the muted layer (it returns), and
  \<open>createSet\<close> with nothing selected (it raises); both close the chunk.
\<close>

theorem wrapperUndoChunck_brackets_witness:
  "journal (final (wrapperUndoChunck restoreLights_body
       (empty_scene\<lparr>layers := [\<lparr>lname = ''mutedLights'', lmembers = [], lvisibility = 0,
                                   lcolor = 21\<rparr>]\<rparr>))) =
     [OpenChunk, Command ''delete'' [''mutedLights''], CloseChunk]
   \<and> journal (final (wrapperUndoChunck createSet_body empty_scene)) = [OpenChunk, CloseChunk]
   \<and> raised (wrapperUndoChunck createSet_body empty_scene) = Some IndexError"
proof -
  let ?w = "empty_scene\<lparr>layers := [\<lparr>lname = ''mutedLights'', lmembers = [], lvisibility = 0,
                                      lcolor = 21\<rparr>]\<rparr>"
  have a: "journal (final (restoreLights_body (undoInfo_openChunk ?w))) =
           journal (undoInfo_openChunk ?w) @ [Command ''delete'' [''mutedLights'']]"
    by code_simp
  have b: "journal (final (createSet_body (undoInfo_openChunk empty_scene))) =
           journal (undoInfo_openChunk empty_scene) @ []"
    by code_simp
  have c: "journal ?w = []" "journal empty_scene = []"
    "raised (createSet_body (undoInfo_openChunk empty_scene)) = Some IndexError"
    by code_simp+
  show ?thesis
    using wrapperUndoChunck_brackets
            [where operation = restoreLights_body and w = "?w"
               and es = "[Command ''delete'' [''mutedLights'']]" and d = 0]
          wrapperUndoChunck_brackets
            [where operation = createSet_body and w = empty_scene and es = "[]" and d = 0]
          a b c
    by simp
qed

subsection \<open>The selection classifier\<close>





subsection \<open>Unused light filters\<close>

text \<open>
  Claim C6. For \<open>ai_filter\<close> one of \<^verbatim>\<open>aiLightBlocker\<close> and \<^verbatim>\<open>aiLightDecay\<close>,
  \<open>getUnusedLightFilters\<close> lists as disconnected exactly the filters of that type with
  no output connection, and as null exactly those that are connected and inert; it
  returns \<open>None\<close> when both lists are empty (so also when there is no filter of the
  type) and otherwise the two lists, which are disjoint, with the type.
\<close>

theorem getUnusedLightFilters_classifies:
  assumes "ai_filter = ''aiLightBlocker'' \<or> ai_filter = ''aiLightDecay''"
  shows "fst (getUnusedLightFilters ai_filter w) =
           (if filter (has_no_output w) (ls w ai_filter) = [] \<and>
               filter (functionally_null ai_filter w) (ls w ai_filter) = []
            then None
            else Some \<lparr>uf_disconnected = filter (has_no_output w) (ls w ai_filter),
                       uf_null = filter (functionally_null ai_filter w) (ls w ai_filter),
                       uf_type = ai_filter\<rparr>)
       \<and> set (filter (has_no_output w) (ls w ai_filter)) \<inter>
         set (filter (functionally_null ai_filter w) (ls w ai_filter)) = {}
       \<and> set (ls w ai_filter) = {n \<in> set (nodes w). nodeType w n = ai_filter}"
proof -
  have hn: "has_no_output w = (\<lambda>f. outputs w f = [])"
    by (rule ext) (simp add: has_no_output_def)
  have fb: "functionally_null ''aiLightBlocker'' w = (\<lambda>f. outputs w f \<noteq> [] \<and> density w f = 0)"
    by (rule ext) (simp add: functionally_null_def has_no_output_def)
  have fd: "functionally_null ''aiLightDecay'' w =
              (\<lambda>f. outputs w f \<noteq> [] \<and> \<not> useNearAtten w f \<and> \<not> useFarAtten w f)"
    by (rule ext) (simp add: functionally_null_def has_no_output_def)
  have dis: "set (filter (has_no_output w) (ls w ai_filter)) \<inter>
         set (filter (functionally_null ai_filter w) (ls w ai_filter)) = {}"
    by (auto simp: functionally_null_def)
  have lsw: "set (ls w ai_filter) = {n \<in> set (nodes w). nodeType w n = ai_filter}"
    by (auto simp: ls_def)
  have val: "fst (getUnusedLightFilters ai_filter w) =
           (if filter (has_no_output w) (ls w ai_filter) = [] \<and>
               filter (functionally_null ai_filter w) (ls w ai_filter) = []
            then None
            else Some \<lparr>uf_disconnected = filter (has_no_output w) (ls w ai_filter),
                       uf_null = filter (functionally_null ai_filter w) (ls w ai_filter),
                       uf_type = ai_filter\<rparr>)"
  proof (cases "ai_filter = ''aiLightBlocker''")
    case True
    show ?thesis
      unfolding True hn fb by (simp add: getUnusedLightFilters_def Let_def)
  next
    case False
    then have dec: "ai_filter = ''aiLightDecay''" using assms by simp
    show ?thesis
      unfolding dec hn fd by (simp add: getUnusedLightFilters_def Let_def)
  qed
  show ?thesis using val dis lsw by blast
qed

theorem getUnusedLightFilters_classifies_witness:
  "fst (getUnusedLightFilters ''aiLightBlocker'' studio) =
     Some \<lparr>uf_disconnected = [''spareShape''], uf_null = [''blkShape''],
           uf_type = ''aiLightBlocker''\<rparr>
   \<and> fst (getUnusedLightFilters ''aiLightDecay'' studio) = None"
proof -
  have a: "filter (has_no_output studio) (ls studio ''aiLightBlocker'') = [''spareShape'']"
    "filter (functionally_null ''aiLightBlocker'' studio) (ls studio ''aiLightBlocker'') = [''blkShape'']"
    "filter (has_no_output studio) (ls studio ''aiLightDecay'') = []"
    "filter (functionally_null ''aiLightDecay'' studio) (ls studio ''aiLightDecay'') = []"
    by code_simp+
  show ?thesis
    using getUnusedLightFilters_classifies [of "''aiLightBlocker''" studio]
      getUnusedLightFilters_classifies [of "''aiLightDecay''" studio] a
    by simp
qed

subsection \<open>Operations on an empty or wrong selection\<close>

text \<open>
  Claim C2 says that an operation invoked with an empty selection or a selection of the
  wrong type raises nothing, in particular \<open>createSet\<close> with nothing selected and
  \<open>breakAllLinks\<close> with no light selected. The code raises in both: \<open>createSet\<close>
  reads \<^verbatim>\<open>selected[-1]\<close> before its guard on the selection (IndexError), and
  \<open>breakAllLinks\<close> iterates over the \<^verbatim>\<open>None\<close> that the classifier returns (TypeError),
  where its sibling \<open>transfertLightLinks\<close> tests \<^verbatim>\<open>if not lights\<close> first.
\<close>

theorem createSet_breakAllLinks_raise:
  "raised (createSet empty_scene) = Some IndexError
   \<and> selection empty_scene = []
   \<and> raised (breakAllLinks (studio\<lparr>selection := [''blk'']\<rparr>)) = Some TypeError
   \<and> fst (onlyLightsFromSelection False False (studio\<lparr>selection := [''blk'']\<rparr>)) = None"
  by code_simp

subsection \<open>Object sets in the selection of the link commands\<close>


subsection \<open>What the wrapped operations return\<close>

text \<open>
  Claim C4 says, among other things, that \<open>restoreLights\<close> returns \<^verbatim>\<open>True\<close> exactly when
  one of the two layers existed. The body does; the method is wrapped by
  \<^verbatim>\<open>_wrapperUndoChunck\<close>, whose wrapper calls the function without returning its
  value, so the method returns \<^verbatim>\<open>None\<close> whether a layer existed or not.
\<close>

theorem restoreLights_returns_None:
  "returned (restoreLights (empty_scene\<lparr>layers := [\<lparr>lname = ''mutedLights'', lmembers = [],
                                   lvisibility = 0, lcolor = 21\<rparr>]\<rparr>)) = Some None
   \<and> returned (restoreLights_body (undoInfo_openChunk
         (empty_scene\<lparr>layers := [\<lparr>lname = ''mutedLights'', lmembers = [],
                                   lvisibility = 0, lcolor = 21\<rparr>]\<rparr>))) = Some True
   \<and> returned (restoreLights empty_scene) = Some None"
  by code_simp

subsection \<open>Solo: the displayed and the muted layer\<close>















subsection \<open>The two layer names through a session\<close>

text \<open>
  \<open>restoreLights\<close> leaves no layer of the two names; \<open>soloLights\<close> starts with
  \<open>restoreLights\<close> and then creates each of the two layers at most once; \<open>muteLights\<close>
  creates the muted layer only when no object of that name exists and otherwise adds
  to the existing one. So no sequence of selections and of the three operations makes
  a second layer of either name.
\<close>

lemma layers_delete: "layers (delete n w) = filter (\<lambda>l. lname l \<noteq> n) (layers w)"
  by (simp add: delete_def command_def Let_def)

lemma layers_delete_if:
  "layers (if objExists w n then delete n w else w) = filter (\<lambda>l. lname l \<noteq> n) (layers w)"
proof (cases "objExists w n")
  case True
  then show ?thesis by (simp add: layers_delete)
next
  case False
  then have "\<forall>l \<in> set (layers w). lname l \<noteq> n"
    by (auto simp: objExists_def)
  then have "filter (\<lambda>l. lname l \<noteq> n) (layers w) = layers w"
    by (simp add: filter_id_conv)
  then show ?thesis using False by simp
qed

lemma restoreLights_body_final_layers:
  "layers (final (restoreLights_body w)) =
     filter (\<lambda>l. lname l \<noteq> displayed_layer_name \<and> lname l \<noteq> muted_layer_name) (layers w)"
proof -
  define w1 where "w1 = (if objExists w displayed_layer_name then delete displayed_layer_name w else w)"
  define w2 where "w2 = (if objExists w1 muted_layer_name then delete muted_layer_name w1 else w1)"
  have lay: "layers w2 = filter (\<lambda>l. lname l \<noteq> displayed_layer_name \<and> lname l \<noteq> muted_layer_name) (layers w)"
    unfolding w2_def w1_def layers_delete_if by (simp add: conj_commute)
  have res: "restoreLights_body w = Inr (False, w2) \<or>
             restoreLights_body w = Inr (True, logger INFO ''Lights visibilities restored.'' (soloMuteLightsCSS w2))"
    by (simp add: restoreLights_body_def w1_def w2_def Let_def)
  then show ?thesis
    using lay by (auto simp: final_def logger_def soloMuteLightsCSS_def)
qed

lemma restoreLights_final_layers:
  "layers (final (restoreLights w)) =
     filter (\<lambda>l. lname l \<noteq> displayed_layer_name \<and> lname l \<noteq> muted_layer_name) (layers w)"
proof -
  have "layers (final (restoreLights w)) = layers (final (restoreLights_body (undoInfo_openChunk w)))"
    by (simp add: restoreLights_def wrapperUndoChunck_def final_def undoInfo_closeChunk_def
             split: sum.splits prod.splits)
  then show ?thesis
    by (simp add: restoreLights_body_final_layers undoInfo_openChunk_def)
qed

lemma restoreLights_returns: "\<exists>w1. restoreLights w = Inr (None, w1)"
  by (simp add: restoreLights_def wrapperUndoChunck_def restoreLights_body_def Let_def
           split: sum.splits prod.splits if_splits)

lemma wrapped_final_layers:
  "layers (final (wrapperUndoChunck (wrapperSelected body) w)) =
   layers (final (body (undoInfo_openChunk w)))"
  by (simp add: wrapperUndoChunck_def wrapperSelected_def final_def undoInfo_closeChunk_def
        select_def Let_def split: sum.splits prod.splits)

lemma names_distinct: "displayed_layer_name \<noteq> muted_layer_name"
  by (simp add: displayed_layer_name_def muted_layer_name_def)


lemma layers_onlyLightsFromSelection:
  "layers (snd (onlyLightsFromSelection gs ah w)) = layers w"
  by (simp add: onlyLightsFromSelection_def Let_def logger_def)

lemma nodes_onlyLightsFromSelection:
  "nodes (snd (onlyLightsFromSelection gs ah w)) = nodes w"
  by (simp add: onlyLightsFromSelection_def Let_def logger_def)

lemma layers_getAllLights: "layers (snd (getAllLights gs w)) = layers w"
  by (simp add: getAllLights_def Let_def logger_def)

lemma names_layer_update:
  "lname y = lname (lys ! i) \<Longrightarrow> map lname (lys[i := y]) = map lname lys"
proof -
  assume "lname y = lname (lys ! i)"
  then have "map lname (lys[i := y]) = (map lname lys)[i := lname (lys ! i)]"
    by (simp add: map_update)
  also have "\<dots> = map lname (lys[i := lys ! i])"
    by (simp only: map_update)
  finally show ?thesis by simp
qed

lemma names_layer_ops:
  "map lname (layers (layer_addMembers i xs w)) = map lname (layers w)"
  "map lname (layers (layer_color_set i c w)) = map lname (layers w)"
  "map lname (layers (layer_visibility_set i v w)) = map lname (layers w)"
  "layers (snd (createDisplayLayer n w)) = layers w @
      [\<lparr>lname = n, lmembers = selection w, lvisibility = 1, lcolor = 0\<rparr>]"
  "layers (select xs w) = layers w"
  "layers (soloMuteLightsCSS w) = layers w"
  "layers (logger lv msg w) = layers w"
  by (simp_all add: layer_addMembers_def layer_color_set_def layer_visibility_set_def
        createDisplayLayer_def select_def soloMuteLightsCSS_def logger_def command_def
        names_layer_update)

lemma soloLights_body_names:
  "map lname (layers (final (soloLights_body w))) =
     map lname (filter (\<lambda>l. lname l \<noteq> displayed_layer_name \<and> lname l \<noteq> muted_layer_name) (layers w))
   \<or> map lname (layers (final (soloLights_body w))) =
     map lname (filter (\<lambda>l. lname l \<noteq> displayed_layer_name \<and> lname l \<noteq> muted_layer_name) (layers w))
       @ [muted_layer_name, displayed_layer_name]"
proof -
  obtain w1 where r: "restoreLights w = Inr (None, w1)"
    using restoreLights_returns by blast
  have l1: "layers w1 = filter (\<lambda>l. lname l \<noteq> displayed_layer_name \<and> lname l \<noteq> muted_layer_name) (layers w)"
    using restoreLights_final_layers [of w] r by (simp add: final_def)
  obtain displayed w2 where c: "onlyLightsFromSelection False (hierarchy_checked w1) w1 = (displayed, w2)"
    by (cases "onlyLightsFromSelection False (hierarchy_checked w1) w1")
  have l2: "layers w2 = layers w1"
    using layers_onlyLightsFromSelection [of False "hierarchy_checked w1" w1] c by simp
  obtain all_lights w3 where a: "getAllLights False w2 = (all_lights, w3)"
    by (cases "getAllLights False w2")
  have l3: "layers w3 = layers w2"
    using layers_getAllLights [of False w2] a by simp
  show ?thesis
  proof (cases "displayed = None \<or> displayed = Some []")
    case True
    then have "soloLights_body w = Inr (None, w2)"
      by (simp add: soloLights_body_def r c)
    then show ?thesis using l1 l2 by (simp add: final_def)
  next
    case False
    show ?thesis
    proof (cases all_lights)
      case None
      then have "soloLights_body w = Inl (TypeError, w3)"
        using False by (simp add: soloLights_body_def r c a)
      then show ?thesis using l1 l2 l3 by (simp add: final_def)
    next
      case (Some L)
      from False obtain S where S: "displayed = Some S" "S \<noteq> []"
        by auto
      have "map lname (layers (final (soloLights_body w))) =
              map lname (layers w3) @ [muted_layer_name, displayed_layer_name]"
        using S Some
        by (simp add: soloLights_body_def r c a final_def Let_def split_def names_layer_ops)
      then show ?thesis using l1 l2 l3 by simp
    qed
  qed
qed

lemma muteLights_body_names:
  "map lname (layers (final (muteLights_body w))) = map lname (layers w)
   \<or> (muted_layer_name \<notin> set (map lname (layers w)) \<and>
       map lname (layers (final (muteLights_body w))) = map lname (layers w) @ [muted_layer_name])"
proof -
  obtain lights w1 where c: "onlyLightsFromSelection False (hierarchy_checked w) w = (lights, w1)"
    by (cases "onlyLightsFromSelection False (hierarchy_checked w) w")
  have l1: "layers w1 = layers w"
    using layers_onlyLightsFromSelection [of False "hierarchy_checked w" w] c by simp
  show ?thesis
  proof (cases "lights = None \<or> lights = Some []")
    case True
    then have "muteLights_body w = Inr (None, w1)"
      by (simp add: muteLights_body_def c)
    then show ?thesis using l1 by (simp add: final_def)
  next
    case False
    show ?thesis
    proof (cases "objExists w1 muted_layer_name")
      case True
      from False obtain S where S: "lights = Some S" "S \<noteq> []"
        by auto
      from True have "map lname (layers (final (muteLights_body w))) = map lname (layers w1)"
        using S
        by (simp add: muteLights_body_def c final_def names_layer_ops split: option.splits)
      then show ?thesis using l1 by simp
    next
      case ne: False
      then have "muted_layer_name \<notin> set (map lname (layers w1))"
        by (simp add: objExists_def)
      moreover from False obtain S where S: "lights = Some S" "S \<noteq> []"
        by auto
      have "map lname (layers (final (muteLights_body w))) =
                       map lname (layers w1) @ [muted_layer_name]"
        using S ne
        by (simp add: muteLights_body_def c final_def Let_def split_def names_layer_ops)
      ultimately show ?thesis using l1 by simp
    qed
  qed
qed

lemma layers_named_names:
  "length (layers_named w n) = length (filter (\<lambda>x. x = n) (map lname (layers w)))"
  by (simp add: layers_named_def filter_map comp_def)

lemma soloLights_one_layer_each: "one_layer_each (final (soloLights w))"
proof -
  let ?F = "map lname (filter (\<lambda>l. lname l \<noteq> displayed_layer_name \<and> lname l \<noteq> muted_layer_name)
                        (layers (undoInfo_openChunk w)))"
  let ?N = "map lname (layers (final (soloLights w)))"
  have f: "filter (\<lambda>x. x = displayed_layer_name) ?F = []"
          "filter (\<lambda>x. x = muted_layer_name) ?F = []"
    by (auto simp: filter_empty_conv)
  have "?N = ?F \<or> ?N = ?F @ [muted_layer_name, displayed_layer_name]"
    using soloLights_body_names [of "undoInfo_openChunk w"]
    by (simp add: soloLights_def wrapped_final_layers)
  then show ?thesis
  proof
    assume "?N = ?F"
    then show ?thesis
      unfolding one_layer_each_def layers_named_names using f by simp
  next
    assume "?N = ?F @ [muted_layer_name, displayed_layer_name]"
    then show ?thesis
      unfolding one_layer_each_def layers_named_names using f names_distinct by simp
  qed
qed

lemma muteLights_one_layer_each:
  assumes "one_layer_each w"
  shows "one_layer_each (final (muteLights w))"
proof -
  let ?O = "map lname (layers w)"
  let ?N = "map lname (layers (final (muteLights w)))"
  have old: "length (filter (\<lambda>x. x = displayed_layer_name) ?O) \<le> 1"
            "length (filter (\<lambda>x. x = muted_layer_name) ?O) \<le> 1"
    using assms by (simp_all add: one_layer_each_def layers_named_names)
  have "?N = ?O \<or> (muted_layer_name \<notin> set ?O \<and> ?N = ?O @ [muted_layer_name])"
    using muteLights_body_names [of "undoInfo_openChunk w"]
    by (simp add: muteLights_def wrapped_final_layers undoInfo_openChunk_def)
  then show ?thesis
  proof
    assume "?N = ?O"
    then show ?thesis
      unfolding one_layer_each_def layers_named_names using old by simp
  next
    assume a: "muted_layer_name \<notin> set ?O \<and> ?N = ?O @ [muted_layer_name]"
    then have "filter (\<lambda>x. x = muted_layer_name) ?O = []"
      by (auto simp: filter_empty_conv image_iff)
    then show ?thesis
      unfolding one_layer_each_def layers_named_names using a old names_distinct by simp
  qed
qed

lemma restoreLights_one_layer_each: "one_layer_each (final (restoreLights w))"
proof -
  have f: "\<And>n. n = displayed_layer_name \<or> n = muted_layer_name \<Longrightarrow>
      filter (\<lambda>l. lname l = n) (filter (\<lambda>l. lname l \<noteq> displayed_layer_name \<and> lname l \<noteq> muted_layer_name) (layers w)) = []"
    by (auto simp: filter_empty_conv)
  show ?thesis
    by (simp add: one_layer_each_def layers_named_def restoreLights_final_layers f
             del: filter_filter)
qed

lemma perform_one_layer_each:
  assumes "one_layer_each w"
  shows "one_layer_each (perform w a)"
proof (cases a)
  case SoloLights
  then show ?thesis by (simp add: perform_def soloLights_one_layer_each)
next
  case MuteLights
  then show ?thesis using assms by (simp add: perform_def muteLights_one_layer_each)
next
  case RestoreLights
  then show ?thesis by (simp add: perform_def restoreLights_one_layer_each)
next
  case (Select xs)
  then show ?thesis using assms
    by (simp add: perform_def one_layer_each_def layers_named_def select_def)
next
  case (Hierarchy b)
  then show ?thesis using assms
    by (simp add: perform_def one_layer_each_def layers_named_def)
qed

lemma session_one_layer_each:
  "one_layer_each w \<Longrightarrow> one_layer_each (foldl perform w as)"
  by (induction as arbitrary: w) (simp_all add: perform_one_layer_each)

subsection \<open>The attribute batch editor\<close>
















subsection \<open>Linking a filter to lights\<close>






















subsection \<open>Closing the gap a null filter leaves\<close>






































end
